theory Spec2Isabelle
  imports Complex_Main
begin

section \<open>Python strings\<close>

text \<open>
  Phrases and socket lines are Python \<open>str\<close> values; they are modelled as \<open>string\<close>
  (character lists) over ASCII. The helpers below are the \<open>str\<close> and \<open>re\<close> operations
  that the skill calls.
\<close>

text \<open>\<open>s.startswith(p)\<close>.\<close>

fun startswith :: "string \<Rightarrow> string \<Rightarrow> bool" where
  "startswith [] s = True"
| "startswith (p # ps) [] = False"
| "startswith (p # ps) (c # cs) = (p = c \<and> startswith ps cs)"

text \<open>\<open>sub in s\<close>: substring test.\<close>

fun str_in :: "string \<Rightarrow> string \<Rightarrow> bool" where
  "str_in sub [] = (sub = [])"
| "str_in sub (c # cs) = (startswith sub (c # cs) \<or> str_in sub cs)"

definition is_digit :: "char \<Rightarrow> bool" where
  "is_digit c = (c \<in> set ''0123456789'')"

text \<open>The value of a decimal digit: its position among the ten digits.\<close>

definition digit_val :: "char \<Rightarrow> nat" where
  "digit_val c = length (takeWhile (\<lambda>d. d \<noteq> c) ''0123456789'')"

text \<open>\<open>int(ds)\<close> for a string of decimal digits (the only strings the skill converts).\<close>

definition int_of_digits :: "string \<Rightarrow> int" where
  "int_of_digits ds = int (fold (\<lambda>c n. 10 * n + digit_val c) ds 0)"

section \<open>Exceptions\<close>

datatype error =
    UnboundLocalError
  | TypeError
  | IndexError
  | KeyError
  | SocketTimeout
  | ValueError
  | NumOutOfRangeError
  | PulseIndexError
  | ServiceError string

section \<open>Volume sideband: \<open>find_vlc\<close>\<close>

text \<open>
  The control connection is a file object read with \<open>readline\<close>. A transcript is the list
  of lines the daemon sends; once they are used up, \<open>readline\<close> either returns the empty
  string (the peer closed the connection) or raises \<open>socket.timeout\<close>.
\<close>

datatype ending = EOF | Timeout

definition readline :: "ending \<Rightarrow> string list \<Rightarrow> error + (string \<times> string list)" where
  "readline e ls =
     (case ls of
        l # rest \<Rightarrow> Inr (l, rest)
      | [] \<Rightarrow> (case e of EOF \<Rightarrow> Inr ([], []) | Timeout \<Rightarrow> Inl SocketTimeout))"

text \<open>
  \<open>re.findall(r'index: (\d+)', line)\<close>: the digit groups of the matches, left to right.
  A match cannot begin inside another match (the letter i occurs only at its start), so
  trying every position yields the same list as the non-overlapping scan of \<open>re\<close>.
\<close>

fun findall_index :: "string \<Rightarrow> string list" where
  "findall_index [] = []"
| "findall_index (c # cs) =
     (if startswith ''index: '' (c # cs) \<and> takeWhile is_digit (drop 7 (c # cs)) \<noteq> []
      then takeWhile is_digit (drop 7 (c # cs)) # findall_index cs
      else findall_index cs)"

text \<open>
  The first two statements of the loop body: when the line contains \<open>index\<close>, the index
  becomes \<open>int(re.findall(...)[0])\<close>, which raises \<open>IndexError\<close> when nothing matched.
\<close>

definition parse_index :: "int \<Rightarrow> string \<Rightarrow> error + int" where
  "parse_index index_id line =
     (if str_in ''index'' line
      then (case findall_index line of
              [] \<Rightarrow> Inl IndexError
            | d # _ \<Rightarrow> Inr (int_of_digits d))
      else Inr index_id)"

text \<open>
  The \<open>while line:\<close> loop, entered with the line read last. The result is the value of
  \<open>vlc_sink_input\<close> when the loop is left: by \<open>break\<close>, by an empty line, or by the
  caught \<open>socket.timeout\<close>. Any other exception leaves the function.
\<close>

function vlc_loop :: "ending \<Rightarrow> string \<Rightarrow> int \<Rightarrow> string list \<Rightarrow> error + int" where
  "vlc_loop e line index_id rest =
     (if line = [] then Inr (- 1)
      else case readline e rest of
             Inl err \<Rightarrow> (if err = SocketTimeout then Inr (- 1) else Inl err)
           | Inr (line', rest') \<Rightarrow>
               (case parse_index index_id line' of
                  Inl err \<Rightarrow> Inl err
                | Inr index_id' \<Rightarrow>
                    if index_id' > - 1 \<and> str_in ''application.name'' line' \<and> str_in ''VLC'' line'
                    then Inr index_id'
                    else vlc_loop e line' index_id' rest'))"
  by pat_completeness auto
termination
  by (relation "measure (\<lambda>(e, line, index_id, rest). 2 * length rest + (if line = [] then 0 else 1))")
     (auto simp: readline_def split: list.splits ending.splits)

declare vlc_loop.simps [simp del]

text \<open>
  \<open>find_vlc\<close>: the first \<open>readline\<close> is outside the \<open>try\<close>, so a timeout there is not
  caught. The line it returns is only tested by \<open>while line:\<close>.
\<close>

definition find_vlc :: "ending \<Rightarrow> string list \<Rightarrow> error + int" where
  "find_vlc e transcript =
     (case readline e transcript of
        Inl err \<Rightarrow> Inl err
      | Inr (line, rest) \<Rightarrow> vlc_loop e line (- 1) rest)"

section \<open>More string operations\<close>

text \<open>\<open>s.lower()\<close> on ASCII.\<close>

definition lower_char :: "char \<Rightarrow> char" where
  "lower_char c =
     (case map_of (zip ''ABCDEFGHIJKLMNOPQRSTUVWXYZ'' ''abcdefghijklmnopqrstuvwxyz'') c of
        Some d \<Rightarrow> d
      | None \<Rightarrow> c)"

definition lower :: "string \<Rightarrow> string" where
  "lower s = map lower_char s"

text \<open>
  \<open>s.replace(old, new)\<close> with both arguments strings: every occurrence of \<open>old\<close>,
  found left to right without overlap, is replaced. An empty \<open>old\<close> matches before every
  character and at the end.
\<close>

function str_replace :: "string \<Rightarrow> string \<Rightarrow> string \<Rightarrow> string" where
  "str_replace old new [] = (if old = [] then new else [])"
| "str_replace old new (c # cs) =
     (if old = [] then new @ c # str_replace old new cs
      else if startswith old (c # cs)
      then new @ str_replace old new (drop (length old) (c # cs))
      else c # str_replace old new cs)"
  by pat_completeness auto
termination
  by (relation "measure (\<lambda>(old, new, s). length s)") auto

text \<open>
  The first argument of \<open>replace\<close> as the interpreter sees it: the method accepts a string
  and raises \<open>TypeError\<close> for a list.
\<close>

datatype pyarg = Str string | StrList "string list"

definition py_replace :: "string \<Rightarrow> pyarg \<Rightarrow> string \<Rightarrow> error + string" where
  "py_replace s old new =
     (case old of
        Str old' \<Rightarrow> Inr (str_replace old' new s)
      | StrList _ \<Rightarrow> Inl TypeError)"

text \<open>\<open>str(n)\<close> for a natural number.\<close>

function str_of_nat :: "nat \<Rightarrow> string" where
  "str_of_nat n =
     (if n < 10 then [''0123456789'' ! n]
      else str_of_nat (n div 10) @ [''0123456789'' ! (n mod 10)])"
  by pat_completeness auto
termination
  by (relation "measure id") auto

declare str_of_nat.simps [simp del]

section \<open>The regular expressions of the Station Resolver\<close>

text \<open>\<open>re.search(" [0-9]+ ", s)\<close>: a space, a maximal run of digits, a space.\<close>

definition match_digit_run :: "string \<Rightarrow> bool" where
  "match_digit_run s =
     (case s of
        [] \<Rightarrow> False
      | c # cs \<Rightarrow>
          c = CHR '' '' \<and> takeWhile is_digit cs \<noteq> [] \<and> startswith '' '' (dropWhile is_digit cs))"

fun search_digit_run :: "string \<Rightarrow> bool" where
  "search_digit_run [] = False"
| "search_digit_run (c # cs) = (match_digit_run (c # cs) \<or> search_digit_run cs)"

text \<open>\<open>re.findall("[0-9]+", s)\<close>: the maximal runs of digits, left to right.\<close>

function findall_digits :: "string \<Rightarrow> string list" where
  "findall_digits [] = []"
| "findall_digits (c # cs) =
     (if is_digit c then takeWhile is_digit (c # cs) # findall_digits (dropWhile is_digit cs)
      else findall_digits cs)"
  by pat_completeness auto
termination
  by (relation "measure length") (auto simp: length_dropWhile_le less_Suc_eq_le)

text \<open>
  \<open>numbers_regex\<close> is \<open>\b(one|two|three|four|five|six|seven|eight|nine)\b\<close>. A word
  character is a letter, a digit or the underscore.
\<close>

definition number_words :: "string list" where
  "number_words =
     [''one'', ''two'', ''three'', ''four'', ''five'', ''six'', ''seven'', ''eight'', ''nine'']"

definition is_word_char :: "char \<Rightarrow> bool" where
  "is_word_char c =
     (c \<in> set ''abcdefghijklmnopqrstuvwxyzABCDEFGHIJKLMNOPQRSTUVWXYZ0123456789_'')"

text \<open>
  The alternation followed by the closing \<open>\b\<close>, tried at the start of \<open>s\<close>: the first
  listed word that begins \<open>s\<close> and is followed by the end or by a non-word character.
\<close>

definition match_number_word :: "string \<Rightarrow> string option" where
  "match_number_word s =
     find (\<lambda>w. startswith w s \<and>
                (case drop (length w) s of [] \<Rightarrow> True | c # _ \<Rightarrow> \<not> is_word_char c))
          number_words"

text \<open>
  \<open>re.findall(numbers_regex, s)\<close>. The flag says whether the character before the current
  position is a word character; the opening \<open>\b\<close> holds exactly when it is not, since
  every alternative begins with a letter. Inside and right after a match the flag is set,
  so trying every position yields what the non-overlapping scan of \<open>re\<close> yields.
\<close>

fun findall_numbers :: "bool \<Rightarrow> string \<Rightarrow> string list" where
  "findall_numbers pw [] = []"
| "findall_numbers pw (c # cs) =
     (case (if pw then None else match_number_word (c # cs)) of
        Some w \<Rightarrow> w # findall_numbers (is_word_char c) cs
      | None \<Rightarrow> findall_numbers (is_word_char c) cs)"

text \<open>\<open>re.search(numbers_regex, s)\<close> as a truth value.\<close>

definition search_numbers :: "string \<Rightarrow> bool" where
  "search_numbers s = (findall_numbers False s \<noteq> [])"

text \<open>
  \<open>w2n.word_to_num\<close> on the words the regular expression can hand to it; the library
  raises \<open>ValueError\<close> for a string that holds no number word.
\<close>

definition word_to_num :: "string \<Rightarrow> error + nat" where
  "word_to_num w =
     (case map_of (zip number_words [1, 2, 3, 4, 5, 6, 7, 8, 9]) w of
        Some n \<Rightarrow> Inr n
      | None \<Rightarrow> Inl ValueError)"

section \<open>The directory service and the host\<close>

text \<open>
  A station record of the directory service: the two fields the skill reads, and the
  vote count, by which the service ranks. The round trip through \<open>json.dumps\<close> and
  \<open>json.loads\<close> leaves such records unchanged.
\<close>

record station =
  name :: string
  url_resolved :: string
  votes :: nat

text \<open>The keyword arguments of one \<open>search\<close> call, in the order written.\<close>

type_synonym kwargs = "(string \<times> string) list"

text \<open>
  A constructed \<open>RadioBrowser\<close> client is its \<open>search\<close> method: it answers a query
  with a list of stations or raises.
\<close>

type_synonym client = "kwargs \<Rightarrow> error + station list"

text \<open>
  What the resolvers depend on: the constructor \<open>RadioBrowser()\<close>, which returns a client
  or raises an \<open>Exception\<close> (given by its \<open>repr\<close>), and \<open>number_to_words\<close> of the
  \<open>inflect\<close> engine, which names a number or raises (\<open>NumOutOfRangeError\<close> for a number
  too long to name).
\<close>

record env =
  RadioBrowser :: "string + client"
  number_to_words :: "string \<Rightarrow> error + string"

datatype CPSMatchLevel = EXACT | MULTI_KEY | TITLE | ARTIST | CATEGORY | GENERIC

text \<open>The match tuple: phrase, confidence, and the dictionary \<open>{"url": ...}\<close>.\<close>

type_synonym match = "string \<times> CPSMatchLevel \<times> (string \<times> string) list"

section \<open>Python floats\<close>

text \<open>
  A Python float is an IEEE double; it is modelled by the rational number it stands for.
  \<open>fl\<close> rounds a rational to the nearest double, ties to the even significand of 53
  bits (the exponent range is not bounded: the skill's numbers are far from its ends). A
  decimal literal denotes the double nearest to it, and each arithmetic operation returns
  the rounded exact result.
\<close>

definition round_half_even :: "rat \<Rightarrow> int" where
  "round_half_even x =
     (let f = \<lfloor>x\<rfloor>; r = x - of_int f
      in if r < 1 / 2 then f else if 1 / 2 < r then f + 1 else if even f then f else f + 1)"

text \<open>
  The spacing of the doubles around a positive \<open>x\<close>: the power of two \<open>u\<close> with
  \<open>2 ^ 52 * u \<le> x < 2 ^ 53 * u\<close>, searched from \<open>u\<close> by doubling and halving.
\<close>

function ulp_search :: "nat \<Rightarrow> rat \<Rightarrow> rat \<Rightarrow> rat" where
  "ulp_search fuel u x =
     (if fuel = 0 then u
      else if 2 ^ 53 * u \<le> x then ulp_search (fuel - 1) (2 * u) x
      else if x < 2 ^ 52 * u then ulp_search (fuel - 1) (u / 2) x
      else u)"
  by pat_completeness auto
termination
  by (relation "measure (\<lambda>(fuel, u, x). fuel)") auto

declare ulp_search.simps [simp del]

definition fl :: "rat \<Rightarrow> rat" where
  "fl x =
     (if x = 0 then 0
      else (let u = ulp_search 2200 1 \<bar>x\<bar>
            in sgn x * of_int (round_half_even (\<bar>x\<bar> / u)) * u))"

text \<open>
  \<open>sum(values)\<close> adds from the left, starting at the integer 0, with one rounding for
  each addition (CPython up to version 3.11; later versions compensate the rounding
  errors of the additions).
\<close>

definition py_sum :: "rat list \<Rightarrow> rat" where
  "py_sum vs = foldl (\<lambda>s v. fl (s + v)) 0 vs"

section \<open>The audio daemon\<close>

text \<open>
  The volume descriptor of \<open>pulsectl\<close> holds one float for each channel. Its flattened
  scalar \<open>value_flat\<close> is a property: read, it is
  \<open>sum(values) / float(len(values))\<close>, or 0 without channels; assigned, it sets
  \<open>values\<close> to \<open>[v] * len(values)\<close>.
\<close>

record volume_info =
  channel_values :: "rat list"

definition value_flat :: "volume_info \<Rightarrow> rat" where
  "value_flat v =
     (if channel_values v = [] then 0
      else fl (py_sum (channel_values v) / of_nat (length (channel_values v))))"

definition set_value_flat :: "rat \<Rightarrow> volume_info \<Rightarrow> volume_info" where
  "set_value_flat x v = v\<lparr>channel_values := replicate (length (channel_values v)) x\<rparr>"

text \<open>The audio daemon's view of a sink input: its volume descriptor and its index.\<close>

record sink_input =
  index :: int
  volume :: volume_info

text \<open>
  A \<open>pulsectl.Pulse\<close> connection: the lookup of a sink input by index, and the outcome
  of a volume write (\<open>None\<close> when the daemon accepts it).
\<close>

record pulse =
  sink_input_info :: "int \<Rightarrow> error + sink_input"
  volume_set :: "sink_input \<Rightarrow> volume_info \<Rightarrow> error option"

text \<open>The calls that leave the skill, in the order they are made.\<close>

datatype event =
    LogException string
  | LogInfo string
  | LogDebug string
  | Search kwargs
  | AudioStop
  | AudioPlay string
  | CPSPlay string
  | VolumeSet sink_input volume_info

text \<open>A call yields the events it caused and either its value or the exception raised.\<close>

type_synonym 'a outcome = "event list \<times> (error + 'a)"

section \<open>Station Resolver\<close>

text \<open>
  The \<open>try\<close> block around the constructor: on an exception the handler logs it and
  falls through, and \<open>rb\<close> stays unbound (\<open>None\<close> here).
\<close>

definition load_client :: "env \<Rightarrow> event list \<times> client option" where
  "load_client env =
     (case RadioBrowser env of
        Inr rb \<Rightarrow> ([], Some rb)
      | Inl e \<Rightarrow> ([LogException (''Failed to load pyradios'' @ e)], None))"

definition found_message :: "station \<Rightarrow> string" where
  "found_message st = ''Found '' @ name st @ '' ('' @ url_resolved st @ '')''"

text \<open>
  The loop of the digit branch,
  \<open>for number in num: phrase = phrase.replace(num, inf_eng.number_to_words(number))\<close>.
  The argument \<open>number_to_words(number)\<close> is evaluated first and may raise; then
  \<open>replace\<close> is called, with the list \<open>num\<close> itself as its first argument.
\<close>

fun digits_to_words ::
  "(string \<Rightarrow> error + string) \<Rightarrow> string list \<Rightarrow> string list \<Rightarrow> string \<Rightarrow>
   error + string" where
  "digits_to_words n2w num [] phrase = Inr phrase"
| "digits_to_words n2w num (number # rest) phrase =
     (case n2w number of
        Inl err \<Rightarrow> Inl err
      | Inr words \<Rightarrow>
          (case py_replace phrase (StrList num) words of
             Inl err \<Rightarrow> Inl err
           | Inr phrase' \<Rightarrow> digits_to_words n2w num rest phrase'))"

text \<open>
  The loop of the word branch,
  \<open>for number in num: phrase = phrase.replace(number, str(w2n.word_to_num(number)))\<close>.
\<close>

fun words_to_digits :: "string list \<Rightarrow> string \<Rightarrow> error + string" where
  "words_to_digits [] phrase = Inr phrase"
| "words_to_digits (number # rest) phrase =
     (case word_to_num number of
        Inl err \<Rightarrow> Inl err
      | Inr n \<Rightarrow>
          (case py_replace phrase (Str number) (str_of_nat n) of
             Inl err \<Rightarrow> Inl err
           | Inr phrase' \<Rightarrow> words_to_digits rest phrase'))"

text \<open>
  A call written as a statement, with no \<open>return\<close> in front: its events happen, an
  exception it raises propagates, and its value is dropped, so the function then ends
  and returns \<open>None\<close>.
\<close>

definition call_discarded :: "event list \<Rightarrow> 'a outcome \<Rightarrow> match option outcome" where
  "call_discarded evs res =
     (evs @ fst res, case snd res of Inl err \<Rightarrow> Inl err | Inr _ \<Rightarrow> Inr None)"

subsection \<open>The retry is on a shorter phrase\<close>

lemma search_digit_run_findall: "search_digit_run s \<Longrightarrow> findall_digits s \<noteq> []"
proof (induction s)
  case Nil
  then show ?case by simp
next
  case (Cons c cs)
  show ?case
  proof (cases "match_digit_run (c # cs)")
    case True
    then obtain d ds where "cs = d # ds" "is_digit d" "\<not> is_digit c"
      by (cases cs) (auto simp: match_digit_run_def is_digit_def split: if_splits)
    then show ?thesis by simp
  next
    case False
    with Cons show ?thesis by auto
  qed
qed

lemma digits_to_words_raises:
  "digits_to_words n2w num (x # xs) phrase =
     (case n2w x of Inl err \<Rightarrow> Inl err | Inr words \<Rightarrow> Inl TypeError)"
  by (simp add: py_replace_def split: sum.splits)

lemma startswith_length: "startswith p s \<Longrightarrow> length p \<le> length s"
  by (induction p s rule: startswith.induct) auto

lemma str_replace_length_le:
  "old \<noteq> [] \<Longrightarrow> length new \<le> length old \<Longrightarrow> length (str_replace old new s) \<le> length s"
proof (induction old new s rule: str_replace.induct)
  case (1 old new)
  then show ?case by simp
next
  case (2 old new c cs)
  show ?case
  proof (cases "startswith old (c # cs)")
    case True
    from startswith_length[OF True] have "length old \<le> Suc (length cs)" by simp
    moreover have "length (str_replace old new (drop (length old) (c # cs))) \<le> length (drop (length old) (c # cs))"
      using 2 True by simp
    ultimately show ?thesis using 2(4,5) True by simp
  next
    case False
    then show ?thesis using 2 by simp
  qed
qed

lemma str_replace_length_less:
  "old \<noteq> [] \<Longrightarrow> length new < length old \<Longrightarrow> str_in old s \<Longrightarrow>
   length (str_replace old new s) < length s"
proof (induction s)
  case Nil
  then show ?case by simp
next
  case (Cons c cs)
  show ?case
  proof (cases "startswith old (c # cs)")
    case True
    from startswith_length[OF True] have "length old \<le> Suc (length cs)" by simp
    moreover have "length (str_replace old new (drop (length old) (c # cs))) \<le> length (drop (length old) (c # cs))"
      using Cons.prems by (intro str_replace_length_le) auto
    ultimately show ?thesis using Cons.prems True by simp
  next
    case False
    then show ?thesis using Cons by simp
  qed
qed


lemma findall_numbers_found:
  "w \<in> set (findall_numbers pw s) \<Longrightarrow> str_in w s \<and> w \<in> set number_words"
proof (induction s arbitrary: pw)
  case Nil
  then show ?case by simp
next
  case (Cons c cs)
  show ?case
  proof (cases "if pw then None else match_number_word (c # cs)")
    case None
    with Cons show ?thesis by auto
  next
    case (Some v)
    then have v: "v \<in> set number_words" "startswith v (c # cs)"
      by (auto simp: match_number_word_def find_Some_iff split: if_splits)
    from Cons.prems Some have "w = v \<or> w \<in> set (findall_numbers (is_word_char c) cs)"
      by auto
    then show ?thesis using v Cons.IH by auto
  qed
qed

lemma word_to_num_Inr:
  "word_to_num w = Inr n \<Longrightarrow> 3 \<le> length w \<and> length (str_of_nat n) = 1"
  by (auto simp: word_to_num_def number_words_def str_of_nat.simps split: if_splits)

lemma words_to_digits_length_le:
  "words_to_digits ws p = Inr p' \<Longrightarrow> length p' \<le> length p"
proof (induction ws arbitrary: p)
  case Nil
  then show ?case by simp
next
  case (Cons w ws)
  from Cons.prems obtain n where n: "word_to_num w = Inr n"
    and rest: "words_to_digits ws (str_replace w (str_of_nat n) p) = Inr p'"
    by (auto simp: py_replace_def split: sum.splits)
  from word_to_num_Inr[OF n] have "length (str_replace w (str_of_nat n) p) \<le> length p"
    by (intro str_replace_length_le) auto
  with Cons.IH[OF rest] show ?case by simp
qed

lemma words_to_digits_length_less:
  assumes "words_to_digits (w # ws) p = Inr p'" and "str_in w p"
  shows "length p' < length p"
proof -
  from assms(1) obtain n where n: "word_to_num w = Inr n"
    and rest: "words_to_digits ws (str_replace w (str_of_nat n) p) = Inr p'"
    by (auto simp: py_replace_def split: sum.splits)
  from word_to_num_Inr[OF n] assms(2) have "length (str_replace w (str_of_nat n) p) < length p"
    by (intro str_replace_length_less) auto
  with words_to_digits_length_le[OF rest] show ?thesis by simp
qed

lemma numbers_retry_shorter:
  assumes "search_numbers phrase"
    and "words_to_digits (findall_numbers False phrase) phrase = Inr phrase'"
  shows "length phrase' < length phrase"
proof -
  from assms(1) obtain w ws where ws: "findall_numbers False phrase = w # ws"
    by (cases "findall_numbers False phrase") (auto simp: search_numbers_def)
  then have "str_in w phrase" using findall_numbers_found[of w False phrase] by simp
  with assms(2) ws show ?thesis by (auto intro: words_to_digits_length_less)
qed

lemma digits_retry_impossible:
  assumes "search_digit_run phrase"
  shows "digits_to_words n2w (findall_digits phrase) (findall_digits phrase) phrase \<noteq> Inr phrase'"
proof -
  from search_digit_run_findall[OF assms] obtain x xs where "findall_digits phrase = x # xs"
    by (cases "findall_digits phrase") auto
  then show ?thesis by (simp add: py_replace_def split: sum.splits)
qed


subsection \<open>\<open>match_station_name\<close>\<close>

text \<open>
  Each call constructs its own client. A recursive retry is a call statement: its value
  is not returned. The environment answers a repeated query the same way.
\<close>

function match_station_name :: "env \<Rightarrow> string \<Rightarrow> match option outcome" where
  "match_station_name env phrase =
     (let log1 = fst (load_client env) @ [LogInfo (''Searching for '' @ phrase)]
      in case snd (load_client env) of
           None \<Rightarrow> (log1, Inl UnboundLocalError)
         | Some rb \<Rightarrow>
             (let log2 = log1 @ [Search [(''name'', phrase)]]
              in case rb [(''name'', phrase)] of
                   Inl err \<Rightarrow> (log2, Inl err)
                 | Inr parsed \<Rightarrow>
                     if length parsed > 0
                     then (log2 @ [LogInfo (found_message (parsed ! 0))],
                           Inr (Some (phrase, EXACT, [(''url'', url_resolved (parsed ! 0))])))
                     else if search_digit_run phrase
                     then (case digits_to_words (number_to_words env) (findall_digits phrase)
                                  (findall_digits phrase) phrase of
                             Inl err \<Rightarrow> (log2, Inl err)
                           | Inr phrase' \<Rightarrow> call_discarded log2 (match_station_name env phrase'))
                     else if search_numbers phrase
                     then (case words_to_digits (findall_numbers False phrase) phrase of
                             Inl err \<Rightarrow> (log2, Inl err)
                           | Inr phrase' \<Rightarrow> call_discarded log2 (match_station_name env phrase'))
                     else (log2, Inr None)))"
  by pat_completeness auto
termination
proof (relation "measure (\<lambda>(env, phrase). length phrase)")
  show "wf (measure (\<lambda>(env, phrase). length phrase))" by simp
next
  fix env :: env and phrase x :: string and rb parsed phrase'
  assume "search_digit_run phrase"
    and "digits_to_words (number_to_words env) (findall_digits phrase) (findall_digits phrase) phrase = Inr phrase'"
  then show "((env, phrase'), (env, phrase)) \<in> measure (\<lambda>(env, phrase). length phrase)"
    using digits_retry_impossible by blast
next
  fix env :: env and phrase phrase' :: string
  assume "search_numbers phrase"
    and "words_to_digits (findall_numbers False phrase) phrase = Inr phrase'"
  then show "((env, phrase'), (env, phrase)) \<in> measure (\<lambda>(env, phrase). length phrase)"
    using numbers_retry_shorter by simp
qed

declare match_station_name.simps [simp del]


section \<open>Genre Resolver\<close>

text \<open>\<open>phrase.lower().replace("a ", "").replace(" station", "")\<close>.\<close>

definition stripped_phrase :: "string \<Rightarrow> string" where
  "stripped_phrase phrase = str_replace '' station'' [] (str_replace ''a '' [] (lower phrase))"

definition tag_query :: "string \<Rightarrow> kwargs" where
  "tag_query tag = [(''tag'', tag), (''order'', ''votes'')]"

definition match_genre :: "env \<Rightarrow> string \<Rightarrow> match option outcome" where
  "match_genre env phrase =
     (let log1 = fst (load_client env) @
                 [LogInfo (''Searching for a '' @ stripped_phrase phrase @ '' station'')]
      in case snd (load_client env) of
           None \<Rightarrow> (log1, Inl UnboundLocalError)
         | Some rb \<Rightarrow>
             (let log2 = log1 @ [Search (tag_query (stripped_phrase phrase))]
              in case rb (tag_query (stripped_phrase phrase)) of
                   Inl err \<Rightarrow> (log2, Inl err)
                 | Inr parsed \<Rightarrow>
                     if length parsed > 0
                     then (log2 @ [LogInfo (found_message (parsed ! 0))],
                           Inr (Some (phrase, EXACT, [(''url'', url_resolved (parsed ! 0))])))
                     else call_discarded log2 (match_station_name env phrase)))"

section \<open>Playback Bridge\<close>

text \<open>Truth value of a string in a Boolean context.\<close>

definition truthy :: "string \<Rightarrow> bool" where
  "truthy s = (s \<noteq> [])"

text \<open>
  The test is \<open>"a " and " station" in search_phrase\<close>; \<open>in\<close> binds tighter than
  \<open>and\<close>, so the left operand of \<open>and\<close> is the literal \<open>"a "\<close> alone.
\<close>

definition CPS_match_query_phrase :: "env \<Rightarrow> string \<Rightarrow> match option outcome" where
  "CPS_match_query_phrase env phrase =
     (let search_phrase = lower phrase
      in if truthy ''a '' \<and> str_in '' station'' search_phrase
         then match_genre env search_phrase
         else match_station_name env phrase)"

text \<open>
  The host's audio service, as far as \<open>CPS_start\<close> sees it: \<open>stop\<close> ends the current
  playback and \<open>play\<close> starts one.
\<close>

record audioservice =
  is_playing :: bool

definition CPS_start ::
  "audioservice \<Rightarrow> string \<Rightarrow> (string \<times> string) list \<Rightarrow> audioservice \<times> unit outcome" where
  "CPS_start a phrase data =
     (let a1 = (if is_playing a then a\<lparr>is_playing := False\<rparr> else a);
          log1 = (if is_playing a then [AudioStop] else [])
      in case map_of data ''url'' of
           None \<Rightarrow> (a1, (log1, Inl KeyError))
         | Some url \<Rightarrow>
             (a1\<lparr>is_playing := True\<rparr>,
              (log1 @ [LogInfo (''Playing from '' @ url), AudioPlay url], Inr ())))"

text \<open>
  Reading a trace of audio calls from a given playing state: every \<open>play\<close> finds the
  service stopped.
\<close>

fun plays_when_stopped :: "bool \<Rightarrow> event list \<Rightarrow> bool" where
  "plays_when_stopped playing [] = True"
| "plays_when_stopped playing (AudioStop # evs) = plays_when_stopped False evs"
| "plays_when_stopped playing (AudioPlay url # evs) = (\<not> playing \<and> plays_when_stopped True evs)"
| "plays_when_stopped playing (ev # evs) = plays_when_stopped playing evs"

section \<open>Volume sideband: \<open>set_volume\<close>\<close>

text \<open>
  The optional argument is \<open>None\<close> when the caller leaves it out; its default is the
  literal \<open>0.5\<close>. \<open>volume\<close> is the very object held by \<open>client\<close>, so the assignment
  to \<open>value_flat\<close> is seen through both.
\<close>

definition set_volume :: "error + pulse \<Rightarrow> int \<Rightarrow> rat option \<Rightarrow> unit outcome" where
  "set_volume connection sink_input vol_arg =
     (let vol = (case vol_arg of None \<Rightarrow> fl (5 / 10) | Some v \<Rightarrow> v)
      in case connection of
           Inl err \<Rightarrow> ([], Inl err)
         | Inr pulse \<Rightarrow>
             (case sink_input_info pulse sink_input of
                Inl err \<Rightarrow> ([], Inl err)
              | Inr client \<Rightarrow>
                  (let volume' = set_value_flat vol (volume client);
                       client' = client\<lparr>volume := volume'\<rparr>
                   in ([VolumeSet client' volume'],
                       case volume_set pulse client' volume' of
                         Some err \<Rightarrow> Inl err
                       | None \<Rightarrow> Inr ()))))"

section \<open>Intent handler\<close>

definition str_of_int :: "int \<Rightarrow> string" where
  "str_of_int i = (if i < 0 then ''-'' @ str_of_nat (nat (- i)) else str_of_nat (nat i))"

text \<open>
  Beside the resolver's environment, the handler sees the control connection of
  \<open>pulsectl.connect_to_cli\<close> (its closing behaviour and transcript, or the exception of
  a failed connect) and the \<open>pulsectl.Pulse\<close> connection. The debug line that
  \<open>find_vlc\<close> logs before it returns is entered in the handler's trace.
\<close>

record system =
  directory :: env
  connect_to_cli :: "error + (ending \<times> string list)"
  Pulse :: "error + pulse"

definition handle_intent :: "system \<Rightarrow> (string \<times> string) list \<Rightarrow> string \<Rightarrow> unit outcome" where
  "handle_intent sys message_data type =
     (case map_of message_data type of
        None \<Rightarrow> ([], Inl KeyError)
      | Some utterance \<Rightarrow>
          (let matched_station = match_station_name (directory sys) utterance;
               log1 = fst matched_station
           in case snd matched_station of
                Inl err \<Rightarrow> (log1, Inl err)
              | Inr None \<Rightarrow> (log1, Inl TypeError)
              | Inr (Some (p, level, data)) \<Rightarrow>
                  (case map_of data ''url'' of
                     None \<Rightarrow> (log1, Inl KeyError)
                   | Some url \<Rightarrow>
                       (let log2 = log1 @ [LogInfo (''Playing from '' @ url), CPSPlay url]
                        in case connect_to_cli sys of
                             Inl err \<Rightarrow> (log2, Inl err)
                           | Inr (e, transcript) \<Rightarrow>
                               (case find_vlc e transcript of
                                  Inl err \<Rightarrow> (log2, Inl err)
                                | Inr vlc \<Rightarrow>
                                    (let log3 = log2 @
                                           [LogDebug (''vlc sink: '' @ str_of_int vlc),
                                            LogInfo ''setting volume for VLC to 0.6'']
                                     in (log3 @
                                         fst (set_volume (Pulse sys) vlc (Some (fl (6 / 10)))),
                                         snd (set_volume (Pulse sys) vlc
                                                (Some (fl (6 / 10)))))))))))"

section \<open>Notions of the specification\<close>









text \<open>
  Environments for examples: a directory whose client is always constructed and answers
  every query through the given table, and an engine that names the numbers zero to
  nine, as the real one does; for any other string this stand-in raises the engine's
  range error.
\<close>

definition small_number_to_words :: "string \<Rightarrow> error + string" where
  "small_number_to_words s =
     (case map_of (zip (map (\<lambda>c. [c]) ''0123456789'')
                       (''zero'' # number_words)) s of
        Some w \<Rightarrow> Inr w
      | None \<Rightarrow> Inl NumOutOfRangeError)"

definition serving :: "(kwargs \<Rightarrow> station list) \<Rightarrow> env" where
  "serving table =
     \<lparr>RadioBrowser = Inr (\<lambda>q. Inr (table q)), number_to_words = small_number_to_words\<rparr>"

definition no_stations :: "kwargs \<Rightarrow> station list" where
  "no_stations q = []"

text \<open>A directory that knows one station, under exactly one name.\<close>

definition named :: "string \<Rightarrow> station \<Rightarrow> kwargs \<Rightarrow> station list" where
  "named n st q = (if q = [(''name'', n)] then [st] else [])"


text \<open>A directory that knows one station and finds it by name only, never by tag.\<close>

definition by_name_only :: "station \<Rightarrow> kwargs \<Rightarrow> station list" where
  "by_name_only st q = (case map_of q ''name'' of Some n \<Rightarrow> [st] | None \<Rightarrow> [])"

text \<open>The volume descriptors of the write requests in a trace.\<close>

fun written_descriptors :: "event list \<Rightarrow> volume_info list" where
  "written_descriptors [] = []"
| "written_descriptors (VolumeSet c v # evs) = v # written_descriptors evs"
| "written_descriptors (ev # evs) = written_descriptors evs"

text \<open>
  A daemon with a single sink input, of the given index and current channel volumes.
\<close>

definition one_sink :: "int \<Rightarrow> rat list \<Rightarrow> pulse" where
  "one_sink i vs =
     \<lparr>sink_input_info =
        (\<lambda>j. if j = i then Inr \<lparr>index = i, volume = \<lparr>channel_values = vs\<rparr>\<rparr>
             else Inl PulseIndexError),
      volume_set = (\<lambda>c v. None)\<rparr>"

definition demo_system :: system where
  "demo_system =
     \<lparr>directory =
        serving (by_name_only \<lparr>name = ''Smooth Jazz'', url_resolved = ''http://a.example/sj'', votes = 80\<rparr>),
      connect_to_cli =
        Inr (Timeout, [''1 sink input(s) available.'', ''    index: 5'',
                       ''        application.name = VLC media player'']),
      Pulse = Inr (one_sink 5 [1 / 4, 1 / 4])\<rparr>"

section \<open>Station Resolver: the first result wins\<close>

lemma load_client_ok: "RadioBrowser env = Inr rb \<Longrightarrow> load_client env = ([], Some rb)"
  by (simp add: load_client_def)

lemma load_client_failed:
  "RadioBrowser env = Inl e \<Longrightarrow>
   load_client env = ([LogException (''Failed to load pyradios'' @ e)], None)"
  by (simp add: load_client_def)

lemma serving_client: "RadioBrowser (serving table) = Inr (\<lambda>q. Inr (table q))"
  by (simp add: serving_def)

lemma match_station_name_found:
  assumes "RadioBrowser env = Inr rb" and "rb [(''name'', phrase)] = Inr (st # rest)"
  shows "match_station_name env phrase =
           ([LogInfo (''Searching for '' @ phrase), Search [(''name'', phrase)],
             LogInfo (found_message st)],
            Inr (Some (phrase, EXACT, [(''url'', url_resolved st)])))"
  using assms by (subst match_station_name.simps) (simp add: load_client_ok)

lemma call_discarded_no_match: "snd (call_discarded evs res) \<noteq> Inr (Some m)"
  by (simp add: call_discarded_def split: sum.splits)

lemma match_station_name_level:
  assumes "snd (match_station_name env phrase) = Inr (Some (p, level, data))"
  shows "level = EXACT \<and> p = phrase"
  using assms
  by (subst (asm) match_station_name.simps)
     (auto simp: Let_def call_discarded_no_match split: option.splits sum.splits if_splits)

text \<open>
  Claim C1. When the client is constructed and the search by name answers with a
  non-empty list, \<open>match_station_name\<close> returns the phrase, the level \<open>EXACT\<close> and the
  dictionary holding the resolved URL of the first result. Whenever it returns a tuple at
  all, the level in it is \<open>EXACT\<close>.
\<close>

theorem station_first_result_exact:
  "(RadioBrowser env = Inr rb \<and> rb [(''name'', phrase)] = Inr (st # rest) \<longrightarrow>
      snd (match_station_name env phrase) =
        Inr (Some (phrase, EXACT, [(''url'', url_resolved st)]))) \<and>
   (snd (match_station_name env phrase) = Inr (Some (p, level, data)) \<longrightarrow> level = EXACT)"
  using match_station_name_found[of env rb phrase st rest]
    match_station_name_level[of env phrase p level data]
  by auto

text \<open>
  Claim C1 at a directory that answers every query with two stations: the first one is
  taken.
\<close>

theorem station_first_result_exact_witness:
  "snd (match_station_name
          (serving (\<lambda>q. [\<lparr>name = ''BBC Radio 4'', url_resolved = ''http://a.example/r4'', votes = 120\<rparr>,
                         \<lparr>name = ''BBC Radio 4 Extra'', url_resolved = ''http://a.example/r4x'', votes = 45\<rparr>]))
          ''bbc radio 4'') =
   Inr (Some (''bbc radio 4'', EXACT, [(''url'', ''http://a.example/r4'')]))"
  using station_first_result_exact
          [of "serving (\<lambda>q. [\<lparr>name = ''BBC Radio 4'', url_resolved = ''http://a.example/r4'', votes = 120\<rparr>,
                         \<lparr>name = ''BBC Radio 4 Extra'', url_resolved = ''http://a.example/r4x'', votes = 45\<rparr>])"
             "\<lambda>q. Inr [\<lparr>name = ''BBC Radio 4'', url_resolved = ''http://a.example/r4'', votes = 120\<rparr>,
                         \<lparr>name = ''BBC Radio 4 Extra'', url_resolved = ''http://a.example/r4x'', votes = 45\<rparr>]"
             "''bbc radio 4''" "\<lparr>name = ''BBC Radio 4'', url_resolved = ''http://a.example/r4'', votes = 120\<rparr>"
             "[\<lparr>name = ''BBC Radio 4 Extra'', url_resolved = ''http://a.example/r4x'', votes = 45\<rparr>]"]
  by (simp add: serving_def)

section \<open>Playback Bridge: which resolver is called\<close>

text \<open>
  Claim C2 as stated fails: the phrase \<open>bbc radio\<close> is not empty, yet the match
  operation runs the Station Resolver on it, with a single search by name and no search
  by tag, which is not what the Genre Resolver does on that phrase.
\<close>

theorem genre_branch_not_always:
  "''bbc radio'' \<noteq> [] \<and>
   CPS_match_query_phrase (serving no_stations) ''bbc radio'' =
     match_station_name (serving no_stations) ''bbc radio'' \<and>
   CPS_match_query_phrase (serving no_stations) ''bbc radio'' =
     ([LogInfo ''Searching for bbc radio'', Search [(''name'', ''bbc radio'')]], Inr None) \<and>
   CPS_match_query_phrase (serving no_stations) ''bbc radio'' \<noteq>
     match_genre (serving no_stations) (lower ''bbc radio'')"
proof -
  have l: "lower ''bbc radio'' = ''bbc radio''"
    by (simp add: lower_def lower_char_def)
  have s: "stripped_phrase ''bbc radio'' = ''bbc radio''"
    by (simp add: stripped_phrase_def l)
  have n: "\<not> search_numbers ''bbc radio''"
    by (simp add: search_numbers_def match_number_word_def number_words_def is_word_char_def)
  have m: "match_station_name (serving no_stations) ''bbc radio'' =
     ([LogInfo ''Searching for bbc radio'', Search [(''name'', ''bbc radio'')]], Inr None)"
    by (subst match_station_name.simps)
       (simp add: n load_client_ok[OF serving_client] no_stations_def Let_def is_digit_def
          match_digit_run_def)
  have c: "CPS_match_query_phrase (serving no_stations) ''bbc radio'' =
             match_station_name (serving no_stations) ''bbc radio''"
    by (simp add: CPS_match_query_phrase_def l)
  have g: "match_genre (serving no_stations) ''bbc radio'' =
     ([LogInfo ''Searching for a bbc radio station'',
       Search [(''tag'', ''bbc radio''), (''order'', ''votes'')],
       LogInfo ''Searching for bbc radio'', Search [(''name'', ''bbc radio'')]], Inr None)"
    by (simp add: match_genre_def s m load_client_ok[OF serving_client] no_stations_def
          tag_query_def call_discarded_def Let_def)
  show ?thesis by (simp only: c m l g) simp
qed

text \<open>
  Claim C2, amended. A phrase whose lower-cased form does not contain \<open>" station"\<close> goes
  to the Station Resolver, unchanged; a phrase whose lower-cased form contains both
  \<open>"a "\<close> and \<open>" station"\<close> goes to the Genre Resolver, lower-cased.
\<close>

theorem match_branch_choice:
  "(\<not> str_in '' station'' (lower phrase) \<longrightarrow>
      CPS_match_query_phrase env phrase = match_station_name env phrase) \<and>
   (str_in ''a '' (lower phrase) \<and> str_in '' station'' (lower phrase) \<longrightarrow>
      CPS_match_query_phrase env phrase = match_genre env (lower phrase))"
  by (simp add: CPS_match_query_phrase_def truthy_def)

text \<open>Claim C2, amended, at one phrase for each branch.\<close>

theorem match_branch_choice_witness:
  "CPS_match_query_phrase (serving no_stations) ''BBC Radio'' =
     match_station_name (serving no_stations) ''BBC Radio'' \<and>
   CPS_match_query_phrase (serving no_stations) ''Play a Jazz Station'' =
     match_genre (serving no_stations) ''play a jazz station''"
proof -
  have 1: "lower ''BBC Radio'' = ''bbc radio''"
    by (simp add: lower_def lower_char_def)
  have 2: "lower ''Play a Jazz Station'' = ''play a jazz station''"
    by (simp add: lower_def lower_char_def)
  have 3: "\<not> str_in '' station'' ''bbc radio''"
    by simp
  have 4: "str_in ''a '' ''play a jazz station'' \<and> str_in '' station'' ''play a jazz station''"
    by simp
  show ?thesis
    using match_branch_choice[of "''BBC Radio''" "serving no_stations"]
      match_branch_choice[of "''Play a Jazz Station''" "serving no_stations"]
    unfolding 1 2 using 3 4 by blast
qed

section \<open>Station Resolver: the digit branch\<close>

text \<open>
  What the digit branch does for any phrase that reaches it: one search, then the first
  turn of the loop ends the call, with the engine's exception when the first digit run
  cannot be named and with the \<open>TypeError\<close> of \<open>replace\<close> otherwise. No retry is made.
\<close>

lemma match_station_name_digit_branch:
  assumes "RadioBrowser env = Inr rb" and "rb [(''name'', phrase)] = Inr []"
    and "search_digit_run phrase"
  shows "match_station_name env phrase =
           ([LogInfo (''Searching for '' @ phrase), Search [(''name'', phrase)]],
            (case number_to_words env (hd (findall_digits phrase)) of
               Inl err \<Rightarrow> Inl err
             | Inr words \<Rightarrow> Inl TypeError))"
proof -
  from search_digit_run_findall[OF assms(3)] obtain x xs where "findall_digits phrase = x # xs"
    by (cases "findall_digits phrase") auto
  then show ?thesis
    using assms
    by (subst match_station_name.simps)
       (simp add: load_client_ok py_replace_def split: sum.splits)
qed

text \<open>
  Claim C3, the code at a failing input. The directory knows a station under the name
  \<open>radio one fm\<close> and nothing under \<open>radio 1 fm\<close>; the engine names the digit run
  \<open>1\<close> as \<open>one\<close>. The comment of the branch promises to replace the digits by words
  and to repeat the search, which would find the station. The call on \<open>radio 1 fm\<close>
  instead ends with \<open>TypeError\<close> after its first search: it neither retries nor returns.
\<close>

theorem digit_branch_type_error:
  "search_digit_run ''radio 1 fm'' \<and>
   findall_digits ''radio 1 fm'' = [''1''] \<and>
   number_to_words
     (serving (named ''radio one fm''
        \<lparr>name = ''Radio One FM'', url_resolved = ''http://a.example/r1'', votes = 7\<rparr>))
     ''1'' = Inr ''one'' \<and>
   str_replace ''1'' ''one'' ''radio 1 fm'' = ''radio one fm'' \<and>
   snd (match_station_name
          (serving (named ''radio one fm''
             \<lparr>name = ''Radio One FM'', url_resolved = ''http://a.example/r1'', votes = 7\<rparr>))
          ''radio one fm'') =
     Inr (Some (''radio one fm'', EXACT, [(''url'', ''http://a.example/r1'')])) \<and>
   match_station_name
     (serving (named ''radio one fm''
        \<lparr>name = ''Radio One FM'', url_resolved = ''http://a.example/r1'', votes = 7\<rparr>))
     ''radio 1 fm'' =
     ([LogInfo ''Searching for radio 1 fm'', Search [(''name'', ''radio 1 fm'')]], Inl TypeError)"
proof -
  let ?st = "\<lparr>name = ''Radio One FM'', url_resolved = ''http://a.example/r1'', votes = 7\<rparr>"
  let ?env = "serving (named ''radio one fm'' ?st)"
  have d: "search_digit_run ''radio 1 fm''"
    by (simp add: match_digit_run_def is_digit_def)
  have f: "findall_digits ''radio 1 fm'' = [''1'']"
    by (simp add: is_digit_def)
  have w: "number_to_words ?env ''1'' = Inr ''one''"
    by (simp add: serving_def small_number_to_words_def number_words_def)
  have r: "str_replace ''1'' ''one'' ''radio 1 fm'' = ''radio one fm''"
    by simp
  have one: "match_station_name ?env ''radio one fm'' =
      ([LogInfo (''Searching for '' @ ''radio one fm''), Search [(''name'', ''radio one fm'')],
        LogInfo (found_message ?st)],
       Inr (Some (''radio one fm'', EXACT, [(''url'', url_resolved ?st)])))"
    by (rule match_station_name_found
          [where rb = "\<lambda>q. Inr (named ''radio one fm'' ?st q)" and rest = "[]"])
       (simp_all add: serving_client named_def)
  have digit: "match_station_name ?env ''radio 1 fm'' =
      ([LogInfo (''Searching for '' @ ''radio 1 fm''), Search [(''name'', ''radio 1 fm'')]],
       (case number_to_words ?env (hd (findall_digits ''radio 1 fm'')) of
          Inl err \<Rightarrow> Inl err
        | Inr words \<Rightarrow> Inl TypeError))"
    by (rule match_station_name_digit_branch
          [where rb = "\<lambda>q. Inr (named ''radio one fm'' ?st q)", OF _ _ d])
       (simp_all add: serving_client named_def)
  show ?thesis
    unfolding digit one using d f w r by simp
qed

section \<open>Genre Resolver\<close>




lemma match_genre_fallback:
  assumes "RadioBrowser env = Inr rb" and "rb (tag_query (stripped_phrase phrase)) = Inr []"
  shows "match_genre env phrase =
           call_discarded
             [LogInfo (''Searching for a '' @ stripped_phrase phrase @ '' station''),
              Search (tag_query (stripped_phrase phrase))]
             (match_station_name env phrase)"
  using assms by (simp add: match_genre_def load_client_ok)

text \<open>
  Claim C5. When the search by tag answers with no result, \<open>match_genre\<close> goes on with
  exactly the events of the Station Resolver on the phrase it was given, not the stripped
  one. Whatever value that call returns, \<open>match_genre\<close> returns \<open>None\<close>; an exception
  of that call propagates; in no case a match tuple comes back.
\<close>

theorem genre_fallback_discarded:
  assumes "RadioBrowser env = Inr rb" and "rb (tag_query (stripped_phrase phrase)) = Inr []"
  shows "fst (match_genre env phrase) =
           [LogInfo (''Searching for a '' @ stripped_phrase phrase @ '' station''),
            Search (tag_query (stripped_phrase phrase))] @ fst (match_station_name env phrase) \<and>
         (\<forall>r. snd (match_station_name env phrase) = Inr r \<longrightarrow>
              snd (match_genre env phrase) = Inr None) \<and>
         (\<forall>err. snd (match_station_name env phrase) = Inl err \<longrightarrow>
              snd (match_genre env phrase) = Inl err) \<and>
         (\<forall>m. snd (match_genre env phrase) \<noteq> Inr (Some m))"
  unfolding match_genre_fallback[OF assms]
  by (simp add: call_discarded_def split: sum.splits)

text \<open>
  Claim C5 at a directory that finds \<open>smooth jazz\<close> by name and not by tag: the Station
  Resolver resolves the station, and \<open>match_genre\<close> still returns \<open>None\<close>.
\<close>

theorem genre_fallback_discarded_witness:
  "snd (match_station_name
          (serving (by_name_only \<lparr>name = ''Smooth Jazz'', url_resolved = ''http://a.example/sj'', votes = 80\<rparr>))
          ''smooth jazz'') =
     Inr (Some (''smooth jazz'', EXACT, [(''url'', ''http://a.example/sj'')])) \<and>
   snd (match_genre
          (serving (by_name_only \<lparr>name = ''Smooth Jazz'', url_resolved = ''http://a.example/sj'', votes = 80\<rparr>))
          ''smooth jazz'') = Inr None"
proof -
  let ?st = "\<lparr>name = ''Smooth Jazz'', url_resolved = ''http://a.example/sj'', votes = 80\<rparr>"
  have t: "by_name_only ?st (tag_query (stripped_phrase ''smooth jazz'')) = []"
    by (simp add: by_name_only_def tag_query_def)
  have n: "by_name_only ?st [(''name'', ''smooth jazz'')] = [?st]"
    by (simp add: by_name_only_def)
  have m: "snd (match_station_name (serving (by_name_only ?st)) ''smooth jazz'') =
             Inr (Some (''smooth jazz'', EXACT, [(''url'', ''http://a.example/sj'')]))"
    using match_station_name_found[of "serving (by_name_only ?st)" "\<lambda>q. Inr (by_name_only ?st q)"
            "''smooth jazz''" ?st "[]"]
    by (simp add: serving_client n)
  show ?thesis
    using genre_fallback_discarded[of "serving (by_name_only ?st)" "\<lambda>q. Inr (by_name_only ?st q)"
            "''smooth jazz''"] m
    by (simp add: serving_client t)
qed

section \<open>A failed client construction\<close>

text \<open>
  Claim C6. When the constructor raises, both resolvers log the exception, go on to the
  next log line, and end with \<open>UnboundLocalError\<close> at the use of \<open>rb\<close>: an uncaught
  error, not the absent-match value \<open>None\<close>.
\<close>

theorem client_failure_unbound:
  "RadioBrowser env = Inl e \<Longrightarrow>
   match_station_name env phrase =
     ([LogException (''Failed to load pyradios'' @ e), LogInfo (''Searching for '' @ phrase)],
      Inl UnboundLocalError) \<and>
   match_genre env phrase =
     ([LogException (''Failed to load pyradios'' @ e),
       LogInfo (''Searching for a '' @ stripped_phrase phrase @ '' station'')],
      Inl UnboundLocalError)"
  by (subst match_station_name.simps) (simp add: load_client_failed match_genre_def)

text \<open>Claim C6 at a constructor that raises \<open>ConnectionError()\<close>.\<close>

theorem client_failure_unbound_witness:
  "match_station_name \<lparr>RadioBrowser = Inl ''ConnectionError()'', number_to_words = small_number_to_words\<rparr>
     ''jazz fm'' =
     ([LogException ''Failed to load pyradiosConnectionError()'', LogInfo ''Searching for jazz fm''],
      Inl UnboundLocalError) \<and>
   snd (match_genre \<lparr>RadioBrowser = Inl ''ConnectionError()'', number_to_words = small_number_to_words\<rparr>
          ''jazz fm'') =
     Inl UnboundLocalError"
  using client_failure_unbound
          [of "\<lparr>RadioBrowser = Inl ''ConnectionError()'', number_to_words = small_number_to_words\<rparr>"
              "''ConnectionError()''" "''jazz fm''"]
  by simp

section \<open>Volume sideband: scanning the transcript\<close>


lemma startswith_prefix: "startswith p (p @ t)"
  by (induction p) auto




lemma fold_digits_append:
  "fold (\<lambda>c n. 10 * n + digit_val c) (ds @ [c]) a = 10 * fold (\<lambda>c n. 10 * n + digit_val c) ds a + digit_val c"
  by simp


















lemma vlc_loop_line:
  "line \<noteq> [] \<Longrightarrow> line' \<noteq> [] \<Longrightarrow> vlc_loop e line idx rest = vlc_loop e line' idx rest"
  using vlc_loop.simps[of e line idx rest] vlc_loop.simps[of e line' idx rest] by simp

text \<open>
  Claim C10. The first line of the response is read before the loop and never examined
  beyond being non-empty: replacing it by any other non-empty line leaves the result
  unchanged. So for the transcript that begins with the index line of a VLC block,
  \<open>find_vlc\<close> returns \<open>-1\<close>, while the same block under a leading line yields its
  index 5.
\<close>

theorem find_vlc_first_line_discarded:
  "(line \<noteq> [] \<and> line' \<noteq> [] \<longrightarrow> find_vlc e (line # rest) = find_vlc e (line' # rest)) \<and>
   find_vlc e [''    index: 5'', ''        application.name = VLC media player''] = Inr (- 1) \<and>
   find_vlc e [''1 sink input(s) available.'', ''    index: 5'',
               ''        application.name = VLC media player''] = Inr 5"
proof -
  have 1: "line \<noteq> [] \<and> line' \<noteq> [] \<longrightarrow> find_vlc e (line # rest) = find_vlc e (line' # rest)"
    by (auto simp: find_vlc_def readline_def intro: vlc_loop_line)
  have 2: "find_vlc e [''    index: 5'', ''        application.name = VLC media player''] =
             Inr (- 1)"
    by (cases e) (simp_all add: find_vlc_def readline_def vlc_loop.simps parse_index_def)
  have 3: "find_vlc e [''1 sink input(s) available.'', ''    index: 5'',
               ''        application.name = VLC media player''] = Inr 5"
    by (simp add: find_vlc_def readline_def vlc_loop.simps parse_index_def is_digit_def
          int_of_digits_def digit_val_def)
  from 1 2 3 show ?thesis by blast
qed

text \<open>Claim C10 at the transcript of one VLC block without a leading line.\<close>

theorem find_vlc_first_line_discarded_witness:
  "find_vlc EOF [''    index: 5'', ''        application.name = VLC media player''] =
   find_vlc EOF [''1 sink input(s) available.'', ''        application.name = VLC media player''] \<and>
   find_vlc EOF [''    index: 5'', ''        application.name = VLC media player''] = Inr (- 1)"
proof -
  have "''    index: 5'' \<noteq> [] \<and> ''1 sink input(s) available.'' \<noteq> []"
    by simp
  with find_vlc_first_line_discarded[of "''    index: 5''" "''1 sink input(s) available.''" EOF
              "[''        application.name = VLC media player'']"]
  show ?thesis by blast
qed

section \<open>Volume sideband: the write request\<close>

text \<open>Evaluation of the float operations on numerals.\<close>

lemma floor_rat_numeral: "\<lfloor>numeral a / numeral b :: rat\<rfloor> = numeral a div numeral b"
  by (metis floor_divide_of_int_eq of_int_numeral)

lemmas fl_eval = fl_def ulp_search.simps round_half_even_def Let_def floor_rat_numeral

lemma fl_06: "fl (6 / 10) = 5404319552844595 / 9007199254740992"
  by (simp add: fl_eval)

lemma fl_05: "fl (5 / 10) = 1 / 2"
  by (simp add: fl_eval)

lemma fl_half: "fl (1 / 2) = 1 / 2"
  by (simp add: fl_eval)

lemma flat_1:
  "value_flat \<lparr>channel_values = replicate 1 (5404319552844595 / 9007199254740992)\<rparr> =
     5404319552844595 / 9007199254740992"
  by (simp add: value_flat_def py_sum_def eval_nat_numeral) (simp add: fl_eval)

lemma flat_2:
  "value_flat \<lparr>channel_values = replicate 2 (5404319552844595 / 9007199254740992)\<rparr> =
     5404319552844595 / 9007199254740992"
  by (simp add: value_flat_def py_sum_def eval_nat_numeral) (simp add: fl_eval)

lemma flat_3:
  "value_flat \<lparr>channel_values = replicate 3 (5404319552844595 / 9007199254740992)\<rparr> =
     5404319552844595 / 9007199254740992"
  by (simp add: value_flat_def py_sum_def eval_nat_numeral) (simp add: fl_eval)

lemma flat_4:
  "value_flat \<lparr>channel_values = replicate 4 (5404319552844595 / 9007199254740992)\<rparr> =
     5404319552844595 / 9007199254740992"
  by (simp add: value_flat_def py_sum_def eval_nat_numeral) (simp add: fl_eval)

lemma flat_5:
  "value_flat \<lparr>channel_values = replicate 5 (5404319552844595 / 9007199254740992)\<rparr> =
     5404319552844595 / 9007199254740992"
  by (simp add: value_flat_def py_sum_def eval_nat_numeral) (simp add: fl_eval)

lemma flat_6:
  "value_flat \<lparr>channel_values = replicate 6 (5404319552844595 / 9007199254740992)\<rparr> =
     5404319552844595 / 9007199254740992"
  by (simp add: value_flat_def py_sum_def eval_nat_numeral) (simp add: fl_eval)

lemma flat_7:
  "value_flat \<lparr>channel_values = replicate 7 (5404319552844595 / 9007199254740992)\<rparr> =
     5404319552844595 / 9007199254740992"
  by (simp add: value_flat_def py_sum_def eval_nat_numeral) (simp add: fl_eval)

lemma flat_8:
  "value_flat \<lparr>channel_values = replicate 8 (5404319552844595 / 9007199254740992)\<rparr> =
     5404319552844595 / 9007199254740992"
  by (simp add: value_flat_def py_sum_def eval_nat_numeral) (simp add: fl_eval)

lemma flat_9:
  "value_flat \<lparr>channel_values = replicate 9 (5404319552844595 / 9007199254740992)\<rparr> =
     5404319552844595 / 9007199254740992"
  by (simp add: value_flat_def py_sum_def eval_nat_numeral) (simp add: fl_eval)

lemma flat_10:
  "value_flat \<lparr>channel_values = replicate 10 (5404319552844595 / 9007199254740992)\<rparr> =
     5404319552844594 / 9007199254740992"
  by (simp add: value_flat_def py_sum_def eval_nat_numeral) (simp add: fl_eval)

lemma flat_upto_9:
  assumes "1 \<le> n" and "n \<le> 9"
  shows "value_flat \<lparr>channel_values = replicate n (fl (6 / 10))\<rparr> = fl (6 / 10)"
proof -
  from assms consider (1) "n = 1" | (2) "n = 2" | (3) "n = 3" | (4) "n = 4" | (5) "n = 5"
    | (6) "n = 6" | (7) "n = 7" | (8) "n = 8" | (9) "n = 9"
    by atomize_elim arith
  then show ?thesis
    unfolding fl_06
    using flat_1 flat_2 flat_3 flat_4 flat_5 flat_6 flat_7 flat_8 flat_9
    by cases (simp_all only:)
qed

lemma set_volume_writes:
  assumes "connection = Inr pulse" and "sink_input_info pulse sid = Inr client"
  shows "fst (set_volume connection sid vol_arg) =
           [VolumeSet
              (client\<lparr>volume :=
                 \<lparr>channel_values =
                    replicate (length (channel_values (volume client)))
                      (case vol_arg of None \<Rightarrow> fl (5 / 10) | Some v \<Rightarrow> v)\<rparr>\<rparr>)
              \<lparr>channel_values =
                 replicate (length (channel_values (volume client)))
                   (case vol_arg of None \<Rightarrow> fl (5 / 10) | Some v \<Rightarrow> v)\<rparr>]"
  using assms by (simp add: set_volume_def set_value_flat_def Let_def)

lemma handle_intent_volume:
  assumes "map_of message_data type = Some utterance"
    and "snd (match_station_name (directory sys) utterance) = Inr (Some (p, level, data))"
    and "map_of data ''url'' = Some url"
    and "connect_to_cli sys = Inr (e, transcript)"
    and "find_vlc e transcript = Inr vlc"
  shows "handle_intent sys message_data type =
           (fst (match_station_name (directory sys) utterance) @
              [LogInfo (''Playing from '' @ url), CPSPlay url,
               LogDebug (''vlc sink: '' @ str_of_int vlc),
               LogInfo ''setting volume for VLC to 0.6''] @
              fst (set_volume (Pulse sys) vlc (Some (fl (6 / 10)))),
            snd (set_volume (Pulse sys) vlc (Some (fl (6 / 10)))))"
  using assms by (simp add: handle_intent_def Let_def)

text \<open>
  Claim C8 as stated fails: on a sink input of ten channels, \<open>set_volume\<close> with 0.6
  writes a descriptor whose ten channels hold 0.6, and its flattened scalar, the float
  sum of the channels divided by ten, is 0.5999999999999999, the double just below 0.6.
\<close>

theorem flat_not_always_06:
  "sink_input_info (one_sink 5 (replicate 10 (1 / 4))) 5 =
     Inr \<lparr>index = 5, volume = \<lparr>channel_values = replicate 10 (1 / 4)\<rparr>\<rparr> \<and>
   written_descriptors
     (fst (set_volume (Inr (one_sink 5 (replicate 10 (1 / 4)))) 5 (Some (fl (6 / 10))))) =
     [\<lparr>channel_values = replicate 10 (fl (6 / 10))\<rparr>] \<and>
   fl (6 / 10) = 5404319552844595 / 9007199254740992 \<and>
   value_flat \<lparr>channel_values = replicate 10 (fl (6 / 10))\<rparr> =
     5404319552844594 / 9007199254740992 \<and>
   value_flat \<lparr>channel_values = replicate 10 (fl (6 / 10))\<rparr> \<noteq> fl (6 / 10)"
proof -
  have s: "sink_input_info (one_sink 5 (replicate 10 (1 / 4))) 5 =
     Inr \<lparr>index = 5, volume = \<lparr>channel_values = replicate 10 (1 / 4)\<rparr>\<rparr>"
    by (simp add: one_sink_def)
  have w: "written_descriptors
     (fst (set_volume (Inr (one_sink 5 (replicate 10 (1 / 4)))) 5 (Some (fl (6 / 10))))) =
     [\<lparr>channel_values = replicate 10 (fl (6 / 10))\<rparr>]"
    using set_volume_writes[OF refl s, of "Some (fl (6 / 10))"] by simp
  show ?thesis
    using s w flat_10 unfolding fl_06 by simp
qed

text \<open>
  Claim C8, amended. For a sink input that the daemon knows, whatever its current
  channel volumes, \<open>set_volume\<close> issues one write request, whose descriptor holds the
  fraction passed in every channel, as many channels as before; a call without the
  fraction writes 0.5. With 0.6 and between one and nine channels, the flattened scalar
  of the written descriptor is exactly 0.6. The intent handler, once it has a station and
  a sink index, calls \<open>set_volume\<close> with 0.6.
\<close>

theorem set_volume_channels:
  "(connection = Inr pulse \<and> sink_input_info pulse sid = Inr client \<longrightarrow>
      (\<exists>w. fst (set_volume connection sid (Some v)) = [VolumeSet (client\<lparr>volume := w\<rparr>) w] \<and>
           channel_values w = replicate (length (channel_values (volume client))) v) \<and>
      (\<exists>w. fst (set_volume connection sid None) = [VolumeSet (client\<lparr>volume := w\<rparr>) w] \<and>
           channel_values w = replicate (length (channel_values (volume client))) (fl (5 / 10))) \<and>
      (1 \<le> length (channel_values (volume client)) \<and>
       length (channel_values (volume client)) \<le> 9 \<longrightarrow>
         (\<exists>w. fst (set_volume connection sid (Some (fl (6 / 10)))) =
                [VolumeSet (client\<lparr>volume := w\<rparr>) w] \<and>
              value_flat w = fl (6 / 10)))) \<and>
   (map_of message_data type = Some utterance \<and>
    snd (match_station_name (directory sys) utterance) = Inr (Some (p, level, data)) \<and>
    map_of data ''url'' = Some url \<and>
    connect_to_cli sys = Inr (e, transcript) \<and>
    find_vlc e transcript = Inr vlc \<longrightarrow>
      handle_intent sys message_data type =
        (fst (match_station_name (directory sys) utterance) @
           [LogInfo (''Playing from '' @ url), CPSPlay url,
            LogDebug (''vlc sink: '' @ str_of_int vlc),
            LogInfo ''setting volume for VLC to 0.6''] @
           fst (set_volume (Pulse sys) vlc (Some (fl (6 / 10)))),
         snd (set_volume (Pulse sys) vlc (Some (fl (6 / 10))))))"
proof -
  have writes: "\<exists>w. fst (set_volume connection sid vol_arg) = [VolumeSet (client\<lparr>volume := w\<rparr>) w] \<and>
      channel_values w =
        replicate (length (channel_values (volume client)))
          (case vol_arg of None \<Rightarrow> fl (5 / 10) | Some v \<Rightarrow> v)"
    if "connection = Inr pulse" "sink_input_info pulse sid = Inr client" for vol_arg
    using set_volume_writes[OF that, of vol_arg] by simp
  have flat: "\<exists>w. fst (set_volume connection sid (Some (fl (6 / 10)))) =
        [VolumeSet (client\<lparr>volume := w\<rparr>) w] \<and> value_flat w = fl (6 / 10)"
    if "connection = Inr pulse" "sink_input_info pulse sid = Inr client"
      "1 \<le> length (channel_values (volume client))"
      "length (channel_values (volume client)) \<le> 9"
    using set_volume_writes[OF that(1,2), of "Some (fl (6 / 10))"] flat_upto_9[OF that(3,4)]
    by simp
  from writes[of "Some v"] writes[of None] flat
    handle_intent_volume[of message_data type utterance sys p level data url e transcript vlc]
  show ?thesis by auto
qed

text \<open>
  Claim C8, amended, at a daemon whose stereo sink input 5 stands at 0.25, alone and
  under the intent handler.
\<close>

theorem set_volume_channels_witness:
  "written_descriptors (fst (set_volume (Inr (one_sink 5 [1 / 4, 1 / 4])) 5 (Some (fl (6 / 10))))) =
     [\<lparr>channel_values = [fl (6 / 10), fl (6 / 10)]\<rparr>] \<and>
   value_flat \<lparr>channel_values = [fl (6 / 10), fl (6 / 10)]\<rparr> = fl (6 / 10) \<and>
   written_descriptors (fst (set_volume (Inr (one_sink 5 [1 / 4, 1 / 4])) 5 None)) =
     [\<lparr>channel_values = [1 / 2, 1 / 2]\<rparr>] \<and>
   written_descriptors
     (fst (handle_intent demo_system [(''station'', ''smooth jazz'')] ''station'')) =
     [\<lparr>channel_values = [fl (6 / 10), fl (6 / 10)]\<rparr>] \<and>
   snd (handle_intent demo_system [(''station'', ''smooth jazz'')] ''station'') = Inr ()"
proof -
  let ?st = "\<lparr>name = ''Smooth Jazz'', url_resolved = ''http://a.example/sj'', votes = 80\<rparr>"
  let ?c = "\<lparr>index = 5, volume = \<lparr>channel_values = [1 / 4, 1 / 4]\<rparr>\<rparr>"
  let ?p = "one_sink 5 [1 / 4, 1 / 4]"
  have s: "sink_input_info ?p 5 = Inr ?c"
    by (simp add: one_sink_def)
  have m: "match_station_name (directory demo_system) ''smooth jazz'' =
             ([LogInfo (''Searching for '' @ ''smooth jazz''), Search [(''name'', ''smooth jazz'')],
               LogInfo (found_message ?st)],
              Inr (Some (''smooth jazz'', EXACT, [(''url'', url_resolved ?st)])))"
    by (rule match_station_name_found[where rb = "\<lambda>q. Inr (by_name_only ?st q)" and rest = "[]"])
       (simp_all add: demo_system_def serving_client by_name_only_def)
  have v: "find_vlc Timeout [''1 sink input(s) available.'', ''    index: 5'',
                             ''        application.name = VLC media player''] = Inr 5"
    by (simp add: find_vlc_def readline_def vlc_loop.simps parse_index_def is_digit_def
          int_of_digits_def digit_val_def)
  have h: "map_of [(''station'', ''smooth jazz'')] ''station'' = Some ''smooth jazz'' \<and>
           snd (match_station_name (directory demo_system) ''smooth jazz'') =
             Inr (Some (''smooth jazz'', EXACT, [(''url'', ''http://a.example/sj'')])) \<and>
           map_of [(''url'', ''http://a.example/sj'')] ''url'' = Some ''http://a.example/sj'' \<and>
           connect_to_cli demo_system =
             Inr (Timeout, [''1 sink input(s) available.'', ''    index: 5'',
                            ''        application.name = VLC media player'']) \<and>
           Pulse demo_system = Inr ?p"
    by (simp add: m) (simp add: demo_system_def)
  have n: "1 \<le> length (channel_values (volume ?c)) \<and> length (channel_values (volume ?c)) \<le> 9"
    by simp
  note a = set_volume_channels[of "Inr ?p" ?p 5 ?c "fl (6 / 10)"
               "[(''station'', ''smooth jazz'')]" "''station''" "''smooth jazz''" demo_system
               "''smooth jazz''" EXACT "[(''url'', ''http://a.example/sj'')]" "''http://a.example/sj''"
               Timeout "[''1 sink input(s) available.'', ''    index: 5'',
                         ''        application.name = VLC media player'']" 5]
  from a s n obtain w where w: "fst (set_volume (Inr ?p) 5 (Some (fl (6 / 10)))) =
        [VolumeSet (?c\<lparr>volume := w\<rparr>) w]"
      "channel_values w = replicate (length (channel_values (volume ?c))) (fl (6 / 10))"
    by blast
  from a s n obtain w' where w': "fst (set_volume (Inr ?p) 5 (Some (fl (6 / 10)))) =
        [VolumeSet (?c\<lparr>volume := w'\<rparr>) w']" "value_flat w' = fl (6 / 10)"
    by blast
  from a s obtain d where d: "fst (set_volume (Inr ?p) 5 None) = [VolumeSet (?c\<lparr>volume := d\<rparr>) d]"
      "channel_values d = replicate (length (channel_values (volume ?c))) (fl (5 / 10))"
    by blast
  from w have weq: "w = \<lparr>channel_values = [fl (6 / 10), fl (6 / 10)]\<rparr>"
    by (cases w) (simp add: eval_nat_numeral)
  from w w' have "w' = w" by simp
  with w' weq have flat: "value_flat \<lparr>channel_values = [fl (6 / 10), fl (6 / 10)]\<rparr> = fl (6 / 10)"
    by simp
  from d have deq: "d = \<lparr>channel_values = [1 / 2, 1 / 2]\<rparr>"
    by (cases d) (simp add: eval_nat_numeral fl_half)
  have r: "snd (set_volume (Inr ?p) 5 (Some (fl (6 / 10)))) = Inr ()"
    by (simp add: set_volume_def one_sink_def Let_def)
  from a h v have hi: "handle_intent demo_system [(''station'', ''smooth jazz'')] ''station'' =
        (fst (match_station_name (directory demo_system) ''smooth jazz'') @
           [LogInfo (''Playing from '' @ ''http://a.example/sj''), CPSPlay ''http://a.example/sj'',
            LogDebug (''vlc sink: '' @ str_of_int 5),
            LogInfo ''setting volume for VLC to 0.6''] @
           fst (set_volume (Inr ?p) 5 (Some (fl (6 / 10)))),
         snd (set_volume (Inr ?p) 5 (Some (fl (6 / 10)))))"
    by simp
  have wd: "written_descriptors (xs @ ys) = written_descriptors xs @ written_descriptors ys"
    for xs ys
    by (induction xs rule: written_descriptors.induct) simp_all
  show ?thesis
    unfolding hi using w(1) d(1) weq deq flat r by (simp add: wd m)
qed

section \<open>Playback Bridge: start\<close>

text \<open>
  Claim C9. Given data that hold a URL, \<open>CPS_start\<close> calls \<open>stop\<close> first when the audio
  service reports playback in progress, and then, in both cases, \<open>play\<close> on that URL;
  the call succeeds, and read from the initial state every \<open>play\<close> in its trace finds the
  service stopped.
\<close>

theorem CPS_start_stop_then_play:
  "map_of data ''url'' = Some url \<Longrightarrow>
   fst (snd (CPS_start a phrase data)) =
     (if is_playing a then [AudioStop] else []) @
       [LogInfo (''Playing from '' @ url), AudioPlay url] \<and>
   snd (snd (CPS_start a phrase data)) = Inr () \<and>
   plays_when_stopped (is_playing a) (fst (snd (CPS_start a phrase data)))"
  by (simp add: CPS_start_def)

text \<open>Claim C9 at a service that is playing and at one that is not.\<close>

theorem CPS_start_stop_then_play_witness:
  "fst (snd (CPS_start \<lparr>is_playing = True\<rparr> ''jazz fm'' [(''url'', ''http://a.example/jazz'')])) =
     [AudioStop, LogInfo ''Playing from http://a.example/jazz'', AudioPlay ''http://a.example/jazz''] \<and>
   fst (snd (CPS_start \<lparr>is_playing = False\<rparr> ''jazz fm'' [(''url'', ''http://a.example/jazz'')])) =
     [LogInfo ''Playing from http://a.example/jazz'', AudioPlay ''http://a.example/jazz'']"
  using CPS_start_stop_then_play[of "[(''url'', ''http://a.example/jazz'')]" "''http://a.example/jazz''"
          "\<lparr>is_playing = True\<rparr>" "''jazz fm''"]
    CPS_start_stop_then_play[of "[(''url'', ''http://a.example/jazz'')]" "''http://a.example/jazz''"
          "\<lparr>is_playing = False\<rparr>" "''jazz fm''"]
  by simp

end
